theory Spec2Isabelle
  imports Complex_Main "HOL-Library.Char_ord" "HOL-Library.List_Lexorder"
begin

section \<open>Errors raised by the models and services\<close>

text \<open>
  Every \<^verbatim>\<open>throw new Error(...)\<close> of the source is a constructor here, named after the
  message it carries; \<open>TypeError\<close> stands for a property access on \<^verbatim>\<open>null\<close>, and
  \<open>GatewayError\<close> for a rejected HTTP call to the payment gateway.
\<close>

datatype error =
    StockInsufficient
  | OrderStatusIncorrect
  | PointsInsufficient
  | AlreadySignedInToday
  | SignVerifyFailed
  | PaymentFailed
  | RefundFailed
  | TypeError
  | GatewayError
  | OrmError

section \<open>Dish: stock ledger (backend/models/Dish.js)\<close>

record dish =
  dish_id :: int
  stock :: int
  soldCount :: int

text \<open>
  \<^verbatim>\<open>decreaseStock(quantity)\<close>: the instance after the call together with the error thrown,
  if any. The throw precedes every assignment, so the instance is the one passed in.
\<close>

definition decreaseStock :: "int \<Rightarrow> dish \<Rightarrow> error option \<times> dish" where
  "decreaseStock quantity d =
     (if stock d \<noteq> -1 then
        (if stock d < quantity then (Some StockInsufficient, d)
         else (None, d\<lparr>stock := stock d - quantity\<rparr>))
      else (None, d))"

definition increaseStock :: "int \<Rightarrow> dish \<Rightarrow> dish" where
  "increaseStock quantity d =
     (if stock d \<noteq> -1 then d\<lparr>stock := stock d + quantity\<rparr> else d)"

definition hasStock :: "int \<Rightarrow> dish \<Rightarrow> bool" where
  "hasStock quantity d \<longleftrightarrow> stock d = -1 \<or> stock d \<ge> quantity"

section \<open>Order: data model and lifecycle methods (models/Order.js)\<close>

datatype order_status =
  Pending | Confirmed | Preparing | Ready | Delivering | Completed | Cancelled | Refunded

datatype pay_status = Unpaid | Paid | PayRefunded | PartialRefunded

datatype delivery_status = DPending | DAssigned | DPicked | DDelivering | DDelivered

datatype pay_method = Wechat | Alipay | Balance | Points

text \<open>
  The columns of the \<^verbatim>\<open>orders\<close> table that the lifecycle, pricing and payment code
  reads or writes. Amounts (the decimal columns, and the numbers the handlers compute)
  are exact rationals; instants are milliseconds since the epoch; a nullable column is an
  \<open>option\<close>.
\<close>

record order =
  order_id :: int
  orderNo :: string
  userId :: int
  subtotal :: rat
  deliveryFee :: rat
  discount :: rat
  total :: rat
  payAmount :: rat
  payMethod :: "pay_method option"
  payStatus :: pay_status
  payTime :: "int option"
  status :: order_status
  deliveryStatus :: delivery_status
  deliveryTaskId :: "int option"
  actualDeliveryTime :: "int option"
  cancelReason :: "string option"
  cancelTime :: "int option"
  refundReason :: "string option"
  refundTime :: "int option"
  refundAmount :: rat
  pointsEarned :: int
  pointsUsed :: int
  couponId :: "int option"
  couponAmount :: rat

text \<open>
  The bodies of the methods in the object literal of the model. Each returns the error
  thrown (if any) and the instance after the call. Every guard throws before the first
  assignment. \<open>now\<close> is the value of \<^verbatim>\<open>new Date()\<close>.
\<close>

definition confirm :: "order \<Rightarrow> error option \<times> order" where
  "confirm this =
     (if status this \<noteq> Pending then (Some OrderStatusIncorrect, this)
      else (None, this\<lparr>status := Confirmed\<rparr>))"

definition startPreparing :: "order \<Rightarrow> error option \<times> order" where
  "startPreparing this =
     (if status this \<noteq> Confirmed then (Some OrderStatusIncorrect, this)
      else (None, this\<lparr>status := Preparing\<rparr>))"

definition ready :: "order \<Rightarrow> error option \<times> order" where
  "ready this =
     (if status this \<noteq> Preparing then (Some OrderStatusIncorrect, this)
      else (None, this\<lparr>status := Ready\<rparr>))"

definition startDelivery :: "int \<Rightarrow> order \<Rightarrow> error option \<times> order" where
  "startDelivery taskId this =
     (if status this \<noteq> Ready then (Some OrderStatusIncorrect, this)
      else (None, this\<lparr>status := Delivering, deliveryStatus := DDelivering,
                        deliveryTaskId := Some taskId\<rparr>))"

definition completeDelivery :: "int \<Rightarrow> order \<Rightarrow> error option \<times> order" where
  "completeDelivery now this =
     (if status this \<noteq> Delivering then (Some OrderStatusIncorrect, this)
      else (None, this\<lparr>status := Completed, deliveryStatus := DDelivered,
                        actualDeliveryTime := Some now\<rparr>))"

definition cancel :: "string \<Rightarrow> int \<Rightarrow> order \<Rightarrow> error option \<times> order" where
  "cancel reason now this =
     (if status this \<notin> set [Pending, Confirmed] then (Some OrderStatusIncorrect, this)
      else (None, this\<lparr>status := Cancelled, cancelReason := Some reason,
                        cancelTime := Some now\<rparr>))"

definition requestRefund :: "string \<Rightarrow> int \<Rightarrow> order \<Rightarrow> error option \<times> order" where
  "requestRefund reason now this =
     (if status this \<noteq> Completed then (Some OrderStatusIncorrect, this)
      else (None, this\<lparr>status := Refunded, refundReason := Some reason,
                        refundTime := Some now, refundAmount := payAmount this\<rparr>))"

definition paySuccess :: "pay_method \<Rightarrow> int \<Rightarrow> order \<Rightarrow> error option \<times> order" where
  "paySuccess method now this =
     (None, this\<lparr>payStatus := Paid, payMethod := Some method, payTime := Some now,
                  status := Confirmed\<rparr>)"

text \<open>The eight lifecycle operations as one dispatcher, and the status each one writes.\<close>

datatype lifecycle_op =
    OpConfirm
  | OpStartPreparing
  | OpReady
  | OpStartDelivery int
  | OpCompleteDelivery
  | OpCancel string
  | OpRequestRefund string
  | OpPaySuccess pay_method

fun apply_op :: "int \<Rightarrow> lifecycle_op \<Rightarrow> order \<Rightarrow> error option \<times> order" where
  "apply_op now OpConfirm this = confirm this"
| "apply_op now OpStartPreparing this = startPreparing this"
| "apply_op now OpReady this = ready this"
| "apply_op now (OpStartDelivery taskId) this = startDelivery taskId this"
| "apply_op now OpCompleteDelivery this = completeDelivery now this"
| "apply_op now (OpCancel reason) this = cancel reason now this"
| "apply_op now (OpRequestRefund reason) this = requestRefund reason now this"
| "apply_op now (OpPaySuccess method) this = paySuccess method now this"

fun target :: "lifecycle_op \<Rightarrow> order_status" where
  "target OpConfirm = Confirmed"
| "target OpStartPreparing = Preparing"
| "target OpReady = Ready"
| "target (OpStartDelivery taskId) = Delivering"
| "target OpCompleteDelivery = Completed"
| "target (OpCancel reason) = Cancelled"
| "target (OpRequestRefund reason) = Refunded"
| "target (OpPaySuccess method) = Confirmed"

text \<open>
  The allowed set of business-status transitions as the specification lists it:
  the forward chain, the two cancellations and the refund of a completed order.
\<close>

fun allowed :: "order_status \<Rightarrow> order_status \<Rightarrow> bool" where
  "allowed Pending Confirmed = True"
| "allowed Confirmed Preparing = True"
| "allowed Preparing Ready = True"
| "allowed Ready Delivering = True"
| "allowed Delivering Completed = True"
| "allowed Pending Cancelled = True"
| "allowed Confirmed Cancelled = True"
| "allowed Completed Refunded = True"
| "allowed _ _ = False"

fun guarded :: "lifecycle_op \<Rightarrow> bool" where
  "guarded (OpPaySuccess method) = False"
| "guarded _ = True"

text \<open>
  \<^verbatim>\<open>calculateDiscount\<close> and \<^verbatim>\<open>calculatePayAmount\<close>: a falsy coupon amount or point count
  contributes nothing; one point is worth 0.01.
\<close>

definition calculateDiscount :: "order \<Rightarrow> rat" where
  "calculateDiscount this =
     (let totalDiscount = 0;
          totalDiscount = (if couponAmount this \<noteq> 0
                           then totalDiscount + couponAmount this else totalDiscount);
          totalDiscount = (if pointsUsed this \<noteq> 0
                           then totalDiscount + of_int (pointsUsed this) * (1 / 100)
                           else totalDiscount)
      in totalDiscount)"

definition calculatePayAmount :: "order \<Rightarrow> rat" where
  "calculatePayAmount this = max 0 (total this - calculateDiscount this)"

section \<open>Order numbers (models/Order.js)\<close>

text \<open>Decimal rendering of a non-negative integer, as \<^verbatim>\<open>String(n)\<close> gives it.\<close>

definition digit_char :: "nat \<Rightarrow> char" where
  "digit_char n = ''0123456789'' ! n"

fun string_of_nat :: "nat \<Rightarrow> string" where
  "string_of_nat n =
     (if n < 10 then [digit_char n]
      else string_of_nat (n div 10) @ [digit_char (n mod 10)])"

declare string_of_nat.simps [simp del]

definition padStart :: "nat \<Rightarrow> char \<Rightarrow> string \<Rightarrow> string" where
  "padStart targetLength c s = replicate (targetLength - length s) c @ s"

text \<open>
  The calendar fields a \<^verbatim>\<open>Date\<close> exposes: \<^verbatim>\<open>getFullYear()\<close>, \<^verbatim>\<open>getMonth()\<close> (0 to 11)
  and \<^verbatim>\<open>getDate()\<close>.
\<close>

record jsdate =
  fullYear :: nat
  monthIndex :: nat
  dayOfMonth :: nat

text \<open>\<open>rnd\<close> is the value \<^verbatim>\<open>Math.random()\<close> returned, a number in \<open>[0, 1)\<close>.\<close>

definition generateOrderNo :: "jsdate \<Rightarrow> rat \<Rightarrow> string" where
  "generateOrderNo date rnd =
     (let year = string_of_nat (fullYear date);
          month = padStart 2 (CHR ''0'') (string_of_nat (monthIndex date + 1));
          day = padStart 2 (CHR ''0'') (string_of_nat (dayOfMonth date));
          random = padStart 4 (CHR ''0'') (string_of_nat (nat \<lfloor>rnd * 10000\<rfloor>))
      in year @ month @ day @ random)"


definition is_digit :: "char \<Rightarrow> bool" where
  "is_digit c \<longleftrightarrow> c \<in> set ''0123456789''"

text \<open>The number a string of decimal digits denotes (leading zeros allowed).\<close>

definition digit_value :: "char \<Rightarrow> nat" where
  "digit_value c = (case map_of (zip ''0123456789'' [0, 1, 2, 3, 4, 5, 6, 7, 8, 9]) c of
                      None \<Rightarrow> 0 | Some v \<Rightarrow> v)"

definition nat_of_digits :: "string \<Rightarrow> nat" where
  "nat_of_digits s = foldl (\<lambda>a c. 10 * a + digit_value c) 0 s"

section \<open>User: points, spending and daily sign-in (models/User.js)\<close>

datatype user_level = Bronze | Silver | Gold | Platinum

record user =
  user_id :: int
  points :: int
  totalPoints :: int
  totalSpent :: rat
  level :: user_level
  lastSignInAt :: "int option"
  signInCount :: int

datatype point_type = Earn | Spend

record point_record =
  pr_userId :: int
  pr_type :: point_type
  pr_points :: int
  pr_reason :: string
  pr_balance :: int

text \<open>
  The persistent state: the three tables as lists of rows, and the cache, which maps a key
  to the instant (milliseconds) at which it expires.
\<close>

record db =
  orders :: "order list"
  users :: "user list"
  pointRecords :: "point_record list"
  redis :: "(string \<times> int) list"

text \<open>
  Process configuration and runtime: the environment variables the code reads, and what
  the code takes from outside the repository.
  \<^item> \<open>md5hex\<close>: the MD5 hex digest of Node's \<^verbatim>\<open>crypto\<close>.
  \<^item> \<open>parseXML\<close>: stands for the service's own regular-expression parser and yields the
    properties of the object it builds, every value a string.
  \<^item> \<open>findOneUndefined\<close>: what the ORM does with a lookup whose key is \<^verbatim>\<open>undefined\<close>.
  \<^item> \<open>utcOffset\<close>: the offset of the host's local time from UTC, in milliseconds, at a given
    instant (it changes where the host's zone has daylight-saving time).
  \<^item> \<open>methodsInstalled\<close>: whether the assignments \<^verbatim>\<open>Model.prototype = {...}\<close> take effect.
    \<^verbatim>\<open>sequelize.define\<close> returns a class; the \<^verbatim>\<open>prototype\<close> property of a class is not
    writable and the files are not in strict mode, so the assignment is ignored and an
    instance has none of the methods of the literal: the value is \<open>False\<close> for the
    program as written. A call of such a method on an instance then throws \<open>TypeError\<close>.
  \<^item> \<open>numberToString\<close> and \<open>stringToNumber\<close>: the conversions JavaScript applies to the
    operands of \<^verbatim>\<open>+\<close>, \<^verbatim>\<open>-\<close> and \<^verbatim>\<open>>=\<close> (\<open>None\<close> is \<^verbatim>\<open>NaN\<close>).
  \<^item> \<open>toCents\<close>: \<^verbatim>\<open>Math.round(x * 100)\<close> as the runtime computes it in floating point.
\<close>

datatype jsval = Str string | Num int | Null | Undefined

type_synonym js_object = "(string \<times> jsval) list"

record env =
  payKey :: string
  appId :: jsval
  mchId :: jsval
  pointsRateEnv :: "rat option"
  signInPointsEnv :: "int option"
  utcOffset :: "int \<Rightarrow> int"
  methodsInstalled :: bool
  md5hex :: "string \<Rightarrow> string"
  parseXML :: "string \<Rightarrow> (string \<times> string) list"
  findOneUndefined :: "order list \<Rightarrow> error + order option"
  numberToString :: "rat \<Rightarrow> string"
  stringToNumber :: "string \<Rightarrow> rat option"
  toCents :: "rat \<Rightarrow> int"

text \<open>\<^verbatim>\<open>instance.save()\<close> writes the row with the instance's primary key.\<close>

definition save_user :: "user \<Rightarrow> user list \<Rightarrow> user list" where
  "save_user u rows = map (\<lambda>r. if user_id r = user_id u then u else r) rows"

definition save_order :: "order \<Rightarrow> order list \<Rightarrow> order list" where
  "save_order ord rows = map (\<lambda>r. if order_id r = order_id ord then ord else r) rows"

definition User_findByPk :: "int \<Rightarrow> user list \<Rightarrow> user option" where
  "User_findByPk k rows = find (\<lambda>r. user_id r = k) rows"

definition Order_findByPk :: "int \<Rightarrow> order list \<Rightarrow> order option" where
  "Order_findByPk k rows = find (\<lambda>r. order_id r = k) rows"

definition Order_findByOrderNo :: "string \<Rightarrow> order list \<Rightarrow> order option" where
  "Order_findByOrderNo no rows = find (\<lambda>r. orderNo r = no) rows"

definition calculateUserLevel :: "rat \<Rightarrow> user_level" where
  "calculateUserLevel amount =
     (if amount \<ge> 5000 then Platinum
      else if amount \<ge> 1000 then Gold
      else if amount \<ge> 500 then Silver
      else Bronze)"

text \<open>
  \<^verbatim>\<open>addPoints\<close>: the balance and the lifetime total grow, the row is saved, and one
  \<open>Earn\<close> record with the new balance is appended to the ledger.
\<close>

definition addPoints :: "int \<Rightarrow> string \<Rightarrow> user \<Rightarrow> db \<Rightarrow> db \<times> user" where
  "addPoints pts reason this d =
     (let this = this\<lparr>points := points this + pts, totalPoints := totalPoints this + pts\<rparr>;
          d = d\<lparr>users := save_user this (users d)\<rparr>;
          d = d\<lparr>pointRecords := pointRecords d @
                 [\<lparr>pr_userId = user_id this, pr_type = Earn, pr_points = pts,
                   pr_reason = reason, pr_balance = points this\<rparr>]\<rparr>
      in (d, this))"

text \<open>
  \<^verbatim>\<open>updateSpent\<close>, with the \<^verbatim>\<open>beforeUpdate\<close> hook of its save: when the lifetime amount
  changed (it is a different number), the level is recomputed from it. No other save
  changes that column.
\<close>

definition updateSpent :: "rat \<Rightarrow> user \<Rightarrow> db \<Rightarrow> db \<times> user" where
  "updateSpent amount this d =
     (let new = this\<lparr>totalSpent := totalSpent this + amount\<rparr>;
          new = (if totalSpent new \<noteq> totalSpent this
                 then new\<lparr>level := calculateUserLevel (totalSpent new)\<rparr> else new)
      in (d\<lparr>users := save_user new (users d)\<rparr>, new))"

text \<open>
  The calendar day (counted from the epoch) of an instant in the host's local time. Two
  \<^verbatim>\<open>toDateString()\<close> values are equal exactly when the days are.
\<close>

definition local_day :: "env \<Rightarrow> int \<Rightarrow> int" where
  "local_day e t = (t + utcOffset e t) div 86400000"

text \<open>\<^verbatim>\<open>parseInt(process.env.SIGN_IN_POINTS) || 5\<close>: unset, not a number or zero give 5.\<close>

definition signInPoints :: "env \<Rightarrow> int" where
  "signInPoints e = (case signInPointsEnv e of None \<Rightarrow> 5 | Some n \<Rightarrow> if n = 0 then 5 else n)"

text \<open>
  The body of \<^verbatim>\<open>signIn\<close> at the instant \<open>now\<close> (the clock is read once per call):
  the error or the returned pair \<^verbatim>\<open>{points, signInCount}\<close>, the state and the instance
  afterwards. The reason text of the ledger record is given in English.
\<close>

definition signIn :: "env \<Rightarrow> int \<Rightarrow> user \<Rightarrow> db \<Rightarrow> (error + int \<times> int) \<times> db \<times> user" where
  "signIn e now this d =
     (let today = local_day e now;
          lastSignIn = map_option (local_day e) (lastSignInAt this)
      in if lastSignIn = Some today then (Inl AlreadySignedInToday, d, this)
         else
           (let this = (if lastSignIn = Some (local_day e (now - 24 * 60 * 60 * 1000))
                        then this\<lparr>signInCount := signInCount this + 1\<rparr>
                        else this\<lparr>signInCount := 1\<rparr>);
                this = this\<lparr>lastSignInAt := Some now\<rparr>;
                (d, this) = addPoints (signInPoints e) ''sign-in reward'' this d;
                d = d\<lparr>users := save_user this (users d)\<rparr>
            in (Inr (signInPoints e, signInCount this), d, this)))"

section \<open>Merchant delivery fee and the pricing block of POST /orders (routes/orders.js)\<close>

text \<open>
  The values the pricing block computes with: a number, \<^verbatim>\<open>NaN\<close>, or a string. A decimal
  column is delivered as a string by the MySQL driver that \<^verbatim>\<open>config/database.js\<close>
  configures (it sets no \<^verbatim>\<open>decimalNumbers\<close> option); the models convert such columns with
  \<^verbatim>\<open>parseFloat\<close> where they add them (\<^verbatim>\<open>updateSpent\<close>, \<^verbatim>\<open>addSales\<close>, \<^verbatim>\<open>calculatePayAmount\<close>).
\<close>

datatype jsv = JNum rat | JNaN | JStr string

definition js_to_number :: "env \<Rightarrow> jsv \<Rightarrow> rat option" where
  "js_to_number e v = (case v of JNum x \<Rightarrow> Some x | JNaN \<Rightarrow> None | JStr s \<Rightarrow> stringToNumber e s)"

definition js_to_string :: "env \<Rightarrow> jsv \<Rightarrow> string" where
  "js_to_string e v = (case v of JNum x \<Rightarrow> numberToString e x | JNaN \<Rightarrow> ''NaN'' | JStr s \<Rightarrow> s)"

definition js_of_number :: "rat option \<Rightarrow> jsv" where
  "js_of_number n = (case n of None \<Rightarrow> JNaN | Some x \<Rightarrow> JNum x)"

definition is_string :: "jsv \<Rightarrow> bool" where
  "is_string v = (case v of JStr s \<Rightarrow> True | _ \<Rightarrow> False)"

text \<open>
  \<^verbatim>\<open>a + b\<close> concatenates when either operand is a string and adds otherwise; \<^verbatim>\<open>a - b\<close>
  converts both operands to numbers; \<^verbatim>\<open>Math.max(0, a)\<close> converts its argument and is
  \<^verbatim>\<open>NaN\<close> for \<^verbatim>\<open>NaN\<close>; \<^verbatim>\<open>a >= b\<close> compares two strings as strings, anything else as
  numbers, and is false when a side is \<^verbatim>\<open>NaN\<close>.
\<close>

definition js_add :: "env \<Rightarrow> jsv \<Rightarrow> jsv \<Rightarrow> jsv" where
  "js_add e a b =
     (if is_string a \<or> is_string b then JStr (js_to_string e a @ js_to_string e b)
      else js_of_number (case (js_to_number e a, js_to_number e b) of
                           (Some x, Some y) \<Rightarrow> Some (x + y) | _ \<Rightarrow> None))"

definition js_sub :: "env \<Rightarrow> jsv \<Rightarrow> jsv \<Rightarrow> jsv" where
  "js_sub e a b =
     js_of_number (case (js_to_number e a, js_to_number e b) of
                     (Some x, Some y) \<Rightarrow> Some (x - y) | _ \<Rightarrow> None)"

definition js_max0 :: "env \<Rightarrow> jsv \<Rightarrow> jsv" where
  "js_max0 e a = js_of_number (map_option (max 0) (js_to_number e a))"

definition js_ge :: "env \<Rightarrow> jsv \<Rightarrow> jsv \<Rightarrow> bool" where
  "js_ge e a b =
     (case (a, b) of
        (JStr s, JStr t) \<Rightarrow> s \<ge> t
      | _ \<Rightarrow> (case (js_to_number e a, js_to_number e b) of
                 (Some x, Some y) \<Rightarrow> x \<ge> y | _ \<Rightarrow> False))"

text \<open>The two decimal columns of the \<^verbatim>\<open>merchants\<close> table that pricing reads, as delivered.\<close>

record merchant =
  merchant_id :: int
  merchant_deliveryFee :: string
  freeDeliveryThreshold :: string

text \<open>
  The body of \<^verbatim>\<open>getDeliveryFee(orderAmount)\<close>: zero from the threshold on, and otherwise
  the fee column itself, unconverted.
\<close>

definition getDeliveryFee :: "env \<Rightarrow> rat \<Rightarrow> merchant \<Rightarrow> jsv" where
  "getDeliveryFee e orderAmount m =
     (if js_ge e (JNum orderAmount) (JStr (freeDeliveryThreshold m)) then JNum 0
      else JStr (merchant_deliveryFee m))"

text \<open>
  The pricing statements of the handler (from the delivery fee to the amount to pay).
  \<open>sub\<close> is the subtotal the loop before them has summed, a number; \<open>coupon\<close> and \<open>pts\<close>
  are the optional \<^verbatim>\<open>couponId\<close> and \<^verbatim>\<open>pointsUsed\<close> of the request (\<open>None\<close> when absent; a
  number is truthy when it is not zero). The coupon amount is the constant 5 of the
  source. The first statement calls \<^verbatim>\<open>merchant.getDeliveryFee\<close>: where the instance has
  no such method it throws \<open>TypeError\<close>.
\<close>

record pricing =
  priced_deliveryFee :: jsv
  priced_discount :: rat
  priced_couponAmount :: rat
  priced_total :: jsv
  priced_payAmount :: jsv

definition pricing_block :: "env \<Rightarrow> rat \<Rightarrow> merchant \<Rightarrow> int option \<Rightarrow> int option \<Rightarrow> error + pricing" where
  "pricing_block e sub m coupon pts =
     (if \<not> methodsInstalled e then Inl TypeError
      else
        (let fee = getDeliveryFee e sub m;
             disc = 0;
             coup = 0;
             coup = (if coupon \<noteq> None \<and> coupon \<noteq> Some 0 then 5 else coup);
             disc = (if coupon \<noteq> None \<and> coupon \<noteq> Some 0 then disc + coup else disc);
             disc = (case pts of
                       None \<Rightarrow> disc
                     | Some n \<Rightarrow> if n \<noteq> 0 then disc + of_int n * (1 / 100) else disc);
             tot = js_add e (JNum sub) fee;
             pay = js_max0 e (js_sub e tot (JNum disc))
         in Inr \<lparr>priced_deliveryFee = fee, priced_discount = disc, priced_couponAmount = coup,
                 priced_total = tot, priced_payAmount = pay\<rparr>))"

section \<open>Gateway signatures (services/paymentService.js)\<close>

text \<open>
  A parameter object is its property list; \<open>obj_get\<close> reads a property (\<open>Undefined\<close> when
  absent) and \<open>to_string\<close> is the conversion a template literal applies.
\<close>

definition obj_get :: "js_object \<Rightarrow> string \<Rightarrow> jsval" where
  "obj_get obj k = (case map_of obj k of None \<Rightarrow> Undefined | Some v \<Rightarrow> v)"

definition obj_keys :: "js_object \<Rightarrow> string list" where
  "obj_keys obj = map fst obj"

definition string_of_int :: "int \<Rightarrow> string" where
  "string_of_int i =
     (if i < 0 then CHR ''-'' # string_of_nat (nat (- i)) else string_of_nat (nat i))"

fun to_string :: "jsval \<Rightarrow> string" where
  "to_string (Str s) = s"
| "to_string (Num n) = string_of_int n"
| "to_string Null = ''null''"
| "to_string Undefined = ''undefined''"

definition upper_char :: "char \<Rightarrow> char" where
  "upper_char c =
     (case map_of (zip ''abcdefghijklmnopqrstuvwxyz'' ''ABCDEFGHIJKLMNOPQRSTUVWXYZ'') c of
        None \<Rightarrow> c | Some u \<Rightarrow> u)"

definition toUpperCase :: "string \<Rightarrow> string" where
  "toUpperCase s = map upper_char s"

text \<open>
  \<^verbatim>\<open>generateSign(params, key)\<close>: the keys are sorted, the loop appends \<^verbatim>\<open>k=v&\<close> for each
  property that passes the test, the secret is appended, and the digest is upper-cased.
\<close>

definition sign_step :: "js_object \<Rightarrow> string \<Rightarrow> string \<Rightarrow> string" where
  "sign_step params k signStr =
     (if obj_get params k \<noteq> Str [] \<and> obj_get params k \<noteq> Null \<and>
         obj_get params k \<noteq> Undefined \<and> k \<noteq> ''sign''
      then signStr @ k @ ''='' @ to_string (obj_get params k) @ ''&''
      else signStr)"

definition generateSign :: "(string \<Rightarrow> string) \<Rightarrow> js_object \<Rightarrow> string \<Rightarrow> string" where
  "generateSign digest params key =
     (let sortedKeys = sort (obj_keys params);
          signStr = fold (sign_step params) sortedKeys [];
          signStr = signStr @ ''key='' @ key
      in toUpperCase (digest signStr))"

definition verifySign :: "env \<Rightarrow> js_object \<Rightarrow> jsval \<Rightarrow> bool" where
  "verifySign e params sign =
     (let calculatedSign = generateSign (md5hex e) params (payKey e)
      in Str calculatedSign = sign)"

text \<open>
  The canonical string as the specification words it: over the sorted keys, the fields
  whose value is non-empty and non-null and whose key is not \<^verbatim>\<open>sign\<close>, each as
  \<^verbatim>\<open>key=value&\<close>, then \<^verbatim>\<open>key=<secret>\<close>.
\<close>

definition signed_fields :: "js_object \<Rightarrow> (string \<times> jsval) list" where
  "signed_fields params =
     filter (\<lambda>(k, v). v \<noteq> Str [] \<and> v \<noteq> Null \<and> v \<noteq> Undefined \<and> k \<noteq> ''sign'')
       (map (\<lambda>k. (k, obj_get params k)) (sort (obj_keys params)))"

definition canonical_string :: "js_object \<Rightarrow> string \<Rightarrow> string" where
  "canonical_string params secret =
     concat (map (\<lambda>(k, v). k @ ''='' @ to_string v @ ''&'') (signed_fields params))
       @ ''key='' @ secret"

section \<open>Payment service calls and the payment routes (routes/payment.js)\<close>

text \<open>
  The gateway: each function stands for one HTTPS round trip (request document out,
  response document parsed), returning the parsed response or the error of a rejected
  call.
\<close>

record gateway =
  wx_orderquery :: "js_object \<Rightarrow> error + js_object"
  wx_refund :: "js_object \<Rightarrow> error + js_object"

definition with_sign :: "env \<Rightarrow> js_object \<Rightarrow> js_object" where
  "with_sign e params = params @ [(''sign'', Str (generateSign (md5hex e) params (payKey e)))]"

text \<open>\<^verbatim>\<open>queryOrder(orderNo)\<close>; \<open>nonce\<close> is the random string drawn for the request.\<close>

definition queryOrder :: "env \<Rightarrow> gateway \<Rightarrow> string \<Rightarrow> string \<Rightarrow> error + js_object" where
  "queryOrder e gw nonce no =
     wx_orderquery gw (with_sign e
       [(''appid'', appId e), (''mch_id'', mchId e), (''out_trade_no'', Str no),
        (''nonce_str'', Str nonce)])"

text \<open>
  \<^verbatim>\<open>refund(refundData)\<close>: the signed request that is sent, and the gateway's answer to it.
\<close>

definition refund_request :: "env \<Rightarrow> string \<Rightarrow> string \<Rightarrow> string \<Rightarrow> rat \<Rightarrow> rat \<Rightarrow> string \<Rightarrow> js_object" where
  "refund_request e nonce no refundNo totalFee refundFee reason =
     with_sign e
       [(''appid'', appId e), (''mch_id'', mchId e), (''nonce_str'', Str nonce),
        (''out_trade_no'', Str no), (''out_refund_no'', Str refundNo),
        (''total_fee'', Num (toCents e totalFee)),
        (''refund_fee'', Num (toCents e refundFee)),
        (''refund_desc'', Str reason)]"

definition generateRefundNo :: "jsdate \<Rightarrow> rat \<Rightarrow> string" where
  "generateRefundNo date rnd = ''RF'' @ generateOrderNo date rnd"

text \<open>
  \<^verbatim>\<open>redis.get\<close> and \<^verbatim>\<open>redis.setex\<close> with a time to live in seconds: a key is present
  until its expiry instant.
\<close>

definition redis_get :: "(string \<times> int) list \<Rightarrow> int \<Rightarrow> string \<Rightarrow> bool" where
  "redis_get cache now k = (case map_of cache k of None \<Rightarrow> False | Some expiry \<Rightarrow> now < expiry)"

definition redis_setex :: "(string \<times> int) list \<Rightarrow> int \<Rightarrow> string \<Rightarrow> int \<Rightarrow> (string \<times> int) list" where
  "redis_setex cache now k seconds = (k, now + seconds * 1000) # cache"

text \<open>The object \<^verbatim>\<open>parseXML\<close> builds: every value it stores is a string.\<close>

definition parsed :: "env \<Rightarrow> string \<Rightarrow> js_object" where
  "parsed e xmlData = map (\<lambda>(k, v). (k, Str v)) (parseXML e xmlData)"

text \<open>
  \<^verbatim>\<open>handlePaymentNotify(xmlData)\<close>: the thrown error, or the result object. A fresh
  notification yields the order number it carries; a notification whose key is still cached
  yields the duplicate result, which has no order number. (The other fields of the result
  are not read by the route.)
\<close>

datatype notify_result = Fresh jsval | Duplicate

definition notify_cache_key :: "jsval \<Rightarrow> string" where
  "notify_cache_key no = ''payment_notify:'' @ to_string no"

definition handlePaymentNotify :: "env \<Rightarrow> int \<Rightarrow> string \<Rightarrow> db \<Rightarrow> (error + notify_result) \<times> db" where
  "handlePaymentNotify e now xmlData d =
     (let params = parsed e xmlData in
      if \<not> verifySign e params (obj_get params ''sign'') then (Inl SignVerifyFailed, d)
      else if obj_get params ''return_code'' \<noteq> Str ''SUCCESS'' then (Inl PaymentFailed, d)
      else if obj_get params ''result_code'' \<noteq> Str ''SUCCESS'' then (Inl PaymentFailed, d)
      else
        (let no = obj_get params ''out_trade_no'';
             cacheKey = notify_cache_key no
         in if redis_get (redis d) now cacheKey then (Inr Duplicate, d)
            else (Inr (Fresh no), d\<lparr>redis := redis_setex (redis d) now cacheKey 300\<rparr>)))"

text \<open>\<^verbatim>\<open>parseFloat(process.env.POINTS_RATE) || 0.05\<close>.\<close>

definition pointsRate :: "env \<Rightarrow> rat" where
  "pointsRate e = (case pointsRateEnv e of None \<Rightarrow> 5 / 100 | Some r \<Rightarrow> if r = 0 then 5 / 100 else r)"

text \<open>
  The settlement statements, which both routes contain word for word: mark the order
  paid, add the amount to the user's lifetime spending, and credit the points earned when
  there are any. The first statement calls \<^verbatim>\<open>order.paySuccess\<close>: where the instance has no
  such method the call throws \<open>TypeError\<close> and no later statement runs. \<open>uid\<close> is the key
  the user is loaded by (the order's user in the callback, the authenticated user in the
  poll). A missing user row makes the next statement throw after the order has been saved.
  The result carries the points computed.
\<close>

definition settle :: "env \<Rightarrow> int \<Rightarrow> int \<Rightarrow> order \<Rightarrow> db \<Rightarrow> (error + int) \<times> db \<times> order" where
  "settle e now uid ord d =
     (if \<not> methodsInstalled e then (Inl TypeError, d, ord)
      else
        (let ord = snd (paySuccess Wechat now ord);
             d = d\<lparr>orders := save_order ord (orders d)\<rparr>
         in case User_findByPk uid (users d) of
              None \<Rightarrow> (Inl TypeError, d, ord)
            | Some userInfo \<Rightarrow>
                (let (d, userInfo) = updateSpent (payAmount ord) userInfo d;
                     earned = \<lfloor>payAmount ord * pointsRate e\<rfloor>
                 in if earned > 0 then
                      (let (d, userInfo) = addPoints earned ''purchase reward'' userInfo d;
                           ord = ord\<lparr>pointsEarned := earned\<rparr>;
                           d = d\<lparr>orders := save_order ord (orders d)\<rparr>
                       in (Inr earned, d, ord))
                    else (Inr earned, d, ord))))"

text \<open>POST /payment/notify: the state afterwards and the acknowledgment sent.\<close>

datatype ack = AckSuccess | AckFail

definition lookup_notified :: "env \<Rightarrow> notify_result \<Rightarrow> order list \<Rightarrow> error + order option" where
  "lookup_notified e res rows =
     (case res of
        Fresh (Str no) \<Rightarrow> Inr (Order_findByOrderNo no rows)
      | _ \<Rightarrow> findOneUndefined e rows)"

definition notify :: "env \<Rightarrow> int \<Rightarrow> string \<Rightarrow> db \<Rightarrow> db \<times> ack" where
  "notify e now xmlData d =
     (case handlePaymentNotify e now xmlData d of
        (Inl err, d) \<Rightarrow> (d, AckFail)
      | (Inr res, d) \<Rightarrow>
          (case lookup_notified e res (orders d) of
             Inl err \<Rightarrow> (d, AckFail)
           | Inr None \<Rightarrow> (d, AckSuccess)
           | Inr (Some ord) \<Rightarrow>
               if payStatus ord = Unpaid then
                 (case settle e now (userId ord) ord d of
                    (Inl err, d, ord) \<Rightarrow> (d, AckFail)
                  | (Inr earned, d, ord) \<Rightarrow> (d, AckSuccess))
               else (d, AckSuccess)))"

text \<open>
  GET /payment/status/:orderNo for the authenticated user \<open>auth\<close> (\<open>None\<close> when the
  request carries no user).
\<close>

datatype status_response =
    Status401
  | Status404
  | Status403
  | StatusPaid string pay_status "int option" "pay_method option"
  | StatusSettled string "int option" int
  | StatusUnpaid string jsval
  | StatusUnknown string
  | Status500

definition payment_status :: "env \<Rightarrow> gateway \<Rightarrow> int \<Rightarrow> string \<Rightarrow> int option \<Rightarrow> string \<Rightarrow> db \<Rightarrow> db \<times> status_response" where
  "payment_status e gw now nonce auth no d =
     (case auth of
        None \<Rightarrow> (d, Status401)
      | Some uid \<Rightarrow>
          (case Order_findByOrderNo no (orders d) of
             None \<Rightarrow> (d, Status404)
           | Some ord \<Rightarrow>
               if userId ord \<noteq> uid then (d, Status403)
               else if payStatus ord = Paid then
                 (d, StatusPaid (orderNo ord) (payStatus ord) (payTime ord) (payMethod ord))
               else
                 (case queryOrder e gw nonce no of
                    Inl err \<Rightarrow> (d, Status500)
                  | Inr wxResult \<Rightarrow>
                      if obj_get wxResult ''return_code'' = Str ''SUCCESS'' \<and>
                         obj_get wxResult ''result_code'' = Str ''SUCCESS''
                      then
                        (let tradeState = obj_get wxResult ''trade_state'' in
                         if tradeState = Str ''SUCCESS'' then
                           (case settle e now uid ord d of
                              (Inl err, d, ord) \<Rightarrow> (d, Status500)
                            | (Inr earned, d, ord) \<Rightarrow>
                                (d, StatusSettled (orderNo ord) (payTime ord) earned))
                         else (d, StatusUnpaid (orderNo ord) tradeState))
                      else (d, StatusUnknown (orderNo ord)))))"

text \<open>
  POST /payment/refund. The body's three fields are optional until validated (a number,
  a positive number, a non-empty string of at most 200 characters). The result is the
  state afterwards, the response, and the requests that were sent to the gateway.
\<close>

record refund_body =
  body_orderId :: "int option"
  body_refundAmount :: "rat option"
  body_reason :: "string option"

datatype refund_response =
    Refund401
  | Refund400Params
  | Refund404
  | Refund403
  | Refund400Status
  | Refund400Amount
  | Refund200 string rat int
  | Refund500

text \<open>The schema check: the three validated values, or \<open>None\<close> when the body is refused.\<close>

definition validate_refund_body :: "refund_body \<Rightarrow> (int \<times> rat \<times> string) option" where
  "validate_refund_body b =
     (case (body_orderId b, body_refundAmount b, body_reason b) of
        (Some k, Some amount, Some reason) \<Rightarrow>
          if amount > 0 \<and> reason \<noteq> [] \<and> length reason \<le> 200
          then Some (k, amount, reason) else None
      | _ \<Rightarrow> None)"

definition refund_route ::
  "env \<Rightarrow> gateway \<Rightarrow> int \<Rightarrow> jsdate \<Rightarrow> rat \<Rightarrow> string \<Rightarrow> int option \<Rightarrow> refund_body \<Rightarrow> db
     \<Rightarrow> db \<times> refund_response \<times> js_object list" where
  "refund_route e gw now date rnd nonce auth b d =
     (case auth of
        None \<Rightarrow> (d, Refund401, [])
      | Some uid \<Rightarrow>
          (case validate_refund_body b of
             None \<Rightarrow> (d, Refund400Params, [])
           | Some (k, amount, reason) \<Rightarrow>
               (case Order_findByPk k (orders d) of
                  None \<Rightarrow> (d, Refund404, [])
                | Some ord \<Rightarrow>
                    if userId ord \<noteq> uid then (d, Refund403, [])
                    else if status ord \<noteq> Completed then (d, Refund400Status, [])
                    else if amount > payAmount ord then (d, Refund400Amount, [])
                    else
                      (let refundNo = generateRefundNo date rnd;
                           request = refund_request e nonce (orderNo ord) refundNo
                                       (payAmount ord) amount reason
                       in case wx_refund gw request of
                            Inl err \<Rightarrow> (d, Refund500, [request])
                          | Inr refundResult \<Rightarrow>
                              if obj_get refundResult ''return_code'' = Str ''SUCCESS'' \<and>
                                 obj_get refundResult ''result_code'' = Str ''SUCCESS''
                              then
                                (let ord = ord\<lparr>status := Refunded, refundReason := Some reason,
                                             refundTime := Some now,
                                             refundAmount := amount\<rparr>
                                 in (d\<lparr>orders := save_order ord (orders d)\<rparr>,
                                     Refund200 refundNo amount now, [request]))
                              else (d, Refund500, [request])))))"

section \<open>States expected after sign-in\<close>

text \<open>
  The ledger record and the user instance that a successful sign-in with the new streak
  \<open>streak\<close> leaves behind.
\<close>

definition sign_in_entry :: "env \<Rightarrow> user \<Rightarrow> point_record" where
  "sign_in_entry e u =
     \<lparr>pr_userId = user_id u, pr_type = Earn, pr_points = signInPoints e,
      pr_reason = ''sign-in reward'', pr_balance = points u + signInPoints e\<rparr>"

definition signed_in :: "env \<Rightarrow> int \<Rightarrow> int \<Rightarrow> user \<Rightarrow> user" where
  "signed_in e now streak u =
     u\<lparr>signInCount := streak, lastSignInAt := Some now,
       points := points u + signInPoints e, totalPoints := totalPoints u + signInPoints e\<rparr>"

section \<open>Sample data\<close>

text \<open>
  Conversions for the sample runtime, on decimal numerals: a number is written with its
  integer part and, when it has one, its fractional digits (at most 17); a string is read
  when it is an optional minus sign, digits, and an optional point followed by digits (the
  empty string reads as 0), and is \<^verbatim>\<open>NaN\<close> otherwise. On these JavaScript agrees:
  \<^verbatim>\<open>String(95)\<close> is \<^verbatim>\<open>"95"\<close> and \<^verbatim>\<open>Number("955.00")\<close> is 955.
\<close>

fun frac_digits :: "nat \<Rightarrow> rat \<Rightarrow> string" where
  "frac_digits 0 x = []"
| "frac_digits (Suc n) x =
     (if x = 0 then []
      else digit_char (nat \<lfloor>x * 10\<rfloor>) # frac_digits n (x * 10 - of_int \<lfloor>x * 10\<rfloor>))"

definition number_string :: "rat \<Rightarrow> string" where
  "number_string x =
     (if x < 0 then ''-'' else []) @ string_of_nat (nat \<lfloor>\<bar>x\<bar>\<rfloor>) @
     (if \<bar>x\<bar> = of_int \<lfloor>\<bar>x\<bar>\<rfloor> then []
      else CHR ''.'' # frac_digits 17 (\<bar>x\<bar> - of_int \<lfloor>\<bar>x\<bar>\<rfloor>))"

definition digits_value :: "string \<Rightarrow> nat option" where
  "digits_value s = (if list_all is_digit s then Some (nat_of_digits s) else None)"

definition parse_number :: "string \<Rightarrow> rat option" where
  "parse_number s =
     (if s = [] then Some 0
      else
        (let neg = (hd s = CHR ''-'');
             body = (if neg then tl s else s);
             whole = takeWhile (\<lambda>c. c \<noteq> CHR ''.'') body;
             part = drop 1 (dropWhile (\<lambda>c. c \<noteq> CHR ''.'') body)
         in if whole = [] \<and> part = [] then None
            else (case (digits_value whole, digits_value part) of
                    (Some w, Some p) \<Rightarrow>
                      Some ((if neg then - 1 else 1) * (of_nat w + of_nat p / 10 ^ length part))
                  | _ \<Rightarrow> None)))"

definition nov3 :: jsdate where
  "nov3 = \<lparr>fullYear = 2026, monthIndex = 10, dayOfMonth = 3\<rparr>"

text \<open>A merchant charging 5.00 for delivery below an order value of 100.00.\<close>

definition merchant1 :: merchant where
  "merchant1 = \<lparr>merchant_id = 1, merchant_deliveryFee = ''5.00'',
                 freeDeliveryThreshold = ''100.00''\<rparr>"

text \<open>
  A payment callback for order 202611031250, signed under the sample configuration
  (whose digest function is the identity), and a copy with another signature.
\<close>

definition callback_fields :: "(string \<times> string) list" where
  "callback_fields =
     [(''return_code'', ''SUCCESS''), (''result_code'', ''SUCCESS''),
      (''out_trade_no'', ''202611031250''),
      (''sign'', ''OUT_TRADE_NO=202611031250&RESULT_CODE=SUCCESS&RETURN_CODE=SUCCESS&KEY=SECRET'')]"

definition forged_fields :: "(string \<times> string) list" where
  "forged_fields =
     [(''return_code'', ''SUCCESS''), (''result_code'', ''SUCCESS''),
      (''out_trade_no'', ''202611031250''), (''sign'', ''0123456789ABCDEF'')]"

text \<open>
  The program as written on a host eight hours ahead of UTC; the same with the model
  methods in effect; and the same on a host in New York, where the offset changes from
  five to four hours behind UTC on 8 March 2026 at 07:00 UTC.
\<close>

definition env1 :: env where
  "env1 = \<lparr>payKey = ''secret'', appId = Str ''wx1'', mchId = Str ''m1'', pointsRateEnv = None,
            signInPointsEnv = None, utcOffset = (\<lambda>t. 28800000), methodsInstalled = False,
            md5hex = (\<lambda>s. s),
            parseXML = (\<lambda>x. if x = ''forged'' then forged_fields else callback_fields),
            findOneUndefined = (\<lambda>rows. Inl OrmError),
            numberToString = number_string, stringToNumber = parse_number,
            toCents = (\<lambda>x. \<lfloor>x * 100 + 1 / 2\<rfloor>)\<rparr>"

definition env_installed :: env where
  "env_installed = env1\<lparr>methodsInstalled := True\<rparr>"

definition env_ny :: env where
  "env_ny = env1\<lparr>utcOffset := (\<lambda>t. if t < 1772953200000 then - 18000000 else - 14400000)\<rparr>"

definition gw_ok :: gateway where
  "gw_ok = \<lparr>wx_orderquery = (\<lambda>request. Inr [(''return_code'', Str ''SUCCESS''),
                (''result_code'', Str ''SUCCESS''), (''trade_state'', Str ''SUCCESS'')]),
             wx_refund = (\<lambda>request. Inr [(''return_code'', Str ''SUCCESS''),
                (''result_code'', Str ''SUCCESS'')])\<rparr>"

definition sample_params :: js_object where
  "sample_params =
     [(''total_fee'', Num 9300), (''sign'', Str ''XYZ''), (''attach'', Str ''''),
      (''appid'', Str ''wx1''), (''openid'', Undefined)]"

definition alice :: user where
  "alice = \<lparr>user_id = 7, points = 10, totalPoints = 40, totalSpent = 480, level = Bronze,
             lastSignInAt = Some 1000, signInCount = 3\<rparr>"

definition db_alice :: db where
  "db_alice = \<lparr>orders = [], users = [alice], pointRecords = [], redis = []\<rparr>"

text \<open>
  A user whose last sign-in was on Sunday 8 March 2026 at noon in New York
  (16:00 UTC), with a streak of 3.
\<close>

definition carol :: user where
  "carol = \<lparr>user_id = 8, points = 10, totalPoints = 40, totalSpent = 480, level = Bronze,
             lastSignInAt = Some 1772985600000, signInCount = 3\<rparr>"

definition db_carol :: db where
  "db_carol = \<lparr>orders = [], users = [carol], pointRecords = [], redis = []\<rparr>"

definition bob :: user where
  "bob = \<lparr>user_id = 7, points = 0, totalPoints = 0, totalSpent = 0, level = Bronze,
           lastSignInAt = None, signInCount = 0\<rparr>"

text \<open>
  The stored, unpaid order 202611031250 of user 7 for a cart of value \<open>sub\<close> and a delivery
  fee of 5 (so 100 to pay for 95); the same order cancelled before payment; the same order
  paid and delivered; and the attributes of a new order of user \<open>uid\<close>, without a number.
\<close>

definition order_of :: "rat \<Rightarrow> order" where
  "order_of sub =
     \<lparr>order_id = 1, orderNo = ''202611031250'', userId = 7, subtotal = sub, deliveryFee = 5,
      discount = 0, total = sub + 5, payAmount = sub + 5, payMethod = None,
      payStatus = Unpaid, payTime = None, status = Pending, deliveryStatus = DPending,
      deliveryTaskId = None, actualDeliveryTime = None, cancelReason = None,
      cancelTime = None, refundReason = None, refundTime = None, refundAmount = 0,
      pointsEarned = 0, pointsUsed = 0, couponId = None, couponAmount = 0\<rparr>"



definition order_cancelled :: order where
  "order_cancelled = snd (cancel ''changed my mind'' 500 (order_of 95))"

definition order_done :: order where
  "order_done = (order_of 95)\<lparr>payStatus := Paid, status := Completed\<rparr>"

definition db_done :: db where
  "db_done = \<lparr>orders = [order_done], users = [bob], pointRecords = [], redis = []\<rparr>"

definition refund_of :: "rat \<Rightarrow> refund_body" where
  "refund_of amount = \<lparr>body_orderId = Some 1, body_refundAmount = Some amount,
                        body_reason = Some ''cold''\<rparr>"


section \<open>Auxiliary facts\<close>


lemmas string_of_nat_numeral =
  string_of_nat.simps [of "numeral k"] string_of_nat.simps [of 0] string_of_nat.simps [of 1]
  string_of_nat.simps [of "Suc 0"] for k

section \<open>Stock reservation\<close>

lemma decreaseStock_hasStock:
  "fst (decreaseStock q d) = None \<longleftrightarrow> hasStock q d"
  by (auto simp: decreaseStock_def hasStock_def)

text \<open>
  Claim C2. For a dish with finite stock \<open>s \<ge> 0\<close> and any quantity \<open>q\<close>, reserving succeeds
  exactly when \<open>q \<le> s\<close>, and then the stock afterwards is \<open>s - q\<close>; when \<open>q > s\<close> it fails
  with the insufficient-stock error and the dish is unchanged; with the unlimited sentinel
  \<open>-1\<close> it always succeeds and the dish is unchanged.
\<close>

theorem decreaseStock_reserve:
  "(0 \<le> stock d \<longrightarrow>
      (fst (decreaseStock q d) = None \<longleftrightarrow> q \<le> stock d) \<and>
      (q \<le> stock d \<longrightarrow> decreaseStock q d = (None, d\<lparr>stock := stock d - q\<rparr>)) \<and>
      (stock d < q \<longrightarrow> decreaseStock q d = (Some StockInsufficient, d))) \<and>
   (stock d = -1 \<longrightarrow> decreaseStock q d = (None, d))"
  by (auto simp: decreaseStock_def)

theorem decreaseStock_reserve_witness:
  "decreaseStock 2 \<lparr>dish_id = 1, stock = 3, soldCount = 0\<rparr>
     = (None, \<lparr>dish_id = 1, stock = 1, soldCount = 0\<rparr>) \<and>
   decreaseStock 2 \<lparr>dish_id = 1, stock = 1, soldCount = 0\<rparr>
     = (Some StockInsufficient, \<lparr>dish_id = 1, stock = 1, soldCount = 0\<rparr>) \<and>
   decreaseStock 7 \<lparr>dish_id = 1, stock = -1, soldCount = 0\<rparr>
     = (None, \<lparr>dish_id = 1, stock = -1, soldCount = 0\<rparr>)"
  using decreaseStock_reserve [of "\<lparr>dish_id = 1, stock = 3, soldCount = 0\<rparr>" 2]
        decreaseStock_reserve [of "\<lparr>dish_id = 1, stock = 1, soldCount = 0\<rparr>" 2]
        decreaseStock_reserve [of "\<lparr>dish_id = 1, stock = -1, soldCount = 0\<rparr>" 7]
  by simp

section \<open>Pricing\<close>

lemma sample_conversions:
  "number_string 95 = ''95''"
  "parse_number ''100.00'' = Some 100"
  "parse_number ''955.00'' = Some 955"
  by (simp_all add: number_string_def parse_number_def digits_value_def is_digit_def
        nat_of_digits_def digit_value_def string_of_nat_numeral digit_char_def)

lemma calculatePayAmount_columns:
  "calculatePayAmount this
     = max 0 (total this - (couponAmount this + of_int (pointsUsed this) * (1 / 100)))"
  by (simp add: calculatePayAmount_def calculateDiscount_def Let_def)

text \<open>
  Claim C3 (where the code departs from it). Scenario A: subtotal 95, delivery fee 5.00
  below a threshold of 100.00, a coupon and 200 points. The claim gives total 100 and 93
  to pay. With the model methods in effect the handler receives the fee as the string
  the column delivers, so \<^verbatim>\<open>subtotal + deliveryFee\<close> is the string \<^verbatim>\<open>955.00\<close> and the amount to
  pay is \<open>max 0 (955 - 7) = 948\<close>; the discount, 7, is as claimed. As the program is
  written no amount is computed at all: the handler throws at its first call of a model
  method (\<^verbatim>\<open>dish.hasStock\<close>, in the loop before these statements), and the call of
  \<^verbatim>\<open>merchant.getDeliveryFee\<close> that opens them would throw likewise.
\<close>

theorem pricing_concatenates_delivery_fee:
  "pricing_block env_installed 95 merchant1 (Some 9) (Some 200)
     = Inr \<lparr>priced_deliveryFee = JStr ''5.00'', priced_discount = 7, priced_couponAmount = 5,
            priced_total = JStr ''955.00'', priced_payAmount = JNum 948\<rparr> \<and>
   pricing_block env1 95 merchant1 (Some 9) (Some 200) = Inl TypeError"
proof -
  have e: "methodsInstalled env_installed" "numberToString env_installed = number_string"
    "stringToNumber env_installed = parse_number" "\<not> methodsInstalled env1"
    by (simp_all add: env_installed_def env1_def)
  have fee: "getDeliveryFee env_installed 95 merchant1 = JStr ''5.00''"
    by (simp add: getDeliveryFee_def js_ge_def js_to_number_def e merchant1_def
          sample_conversions)
  have tot: "js_add env_installed (JNum 95) (JStr ''5.00'') = JStr ''955.00''"
    by (simp add: js_add_def is_string_def js_to_string_def e sample_conversions)
  have pay: "js_max0 env_installed (js_sub env_installed (JStr ''955.00'') (JNum 7)) = JNum 948"
    by (simp add: js_max0_def js_sub_def js_to_number_def js_of_number_def e sample_conversions)
  show ?thesis
    by (simp add: pricing_block_def e fee tot pay Let_def)
qed

section \<open>Lifecycle state machine\<close>

text \<open>
  Every guarded operation refuses a transition that is outside the allowed set and
  leaves the instance as it was; inside the allowed set it succeeds and writes its
  target status.
\<close>

lemma allowed_iff:
  "allowed s t \<longleftrightarrow>
     (s = Pending \<and> t = Confirmed) \<or> (s = Confirmed \<and> t = Preparing) \<or>
     (s = Preparing \<and> t = Ready) \<or> (s = Ready \<and> t = Delivering) \<or>
     (s = Delivering \<and> t = Completed) \<or> (s = Pending \<and> t = Cancelled) \<or>
     (s = Confirmed \<and> t = Cancelled) \<or> (s = Completed \<and> t = Refunded)"
  by (cases s; cases t) simp_all

lemma guarded_op_outside_allowed:
  "guarded op \<Longrightarrow> \<not> allowed (status this) (target op) \<Longrightarrow>
     apply_op now op this = (Some OrderStatusIncorrect, this)"
  by (cases op)
     (simp_all add: allowed_iff confirm_def startPreparing_def ready_def startDelivery_def
        completeDelivery_def cancel_def requestRefund_def)

lemma guarded_op_inside_allowed:
  "guarded op \<Longrightarrow> allowed (status this) (target op) \<Longrightarrow>
     fst (apply_op now op this) = None \<and> status (snd (apply_op now op this)) = target op"
  by (cases op)
     (auto simp add: allowed_iff confirm_def startPreparing_def ready_def startDelivery_def
        completeDelivery_def cancel_def requestRefund_def)

lemma cancel_after_preparing:
  "status this \<in> {Preparing, Ready, Delivering, Completed, Cancelled, Refunded} \<Longrightarrow>
     cancel reason now this = (Some OrderStatusIncorrect, this)"
  by (auto simp: cancel_def)

text \<open>
  Claim C10. \<open>paySuccess\<close> has no precondition: for every order, whatever its status and
  payment status, it does not fail, sets the payment status to \<open>Paid\<close> and the status to
  \<open>Confirmed\<close>, overwrites the payment method and time with the values of this call, and
  touches no other column.
\<close>

theorem paySuccess_unconditional:
  "fst (paySuccess method now this) = None \<and>
   payStatus (snd (paySuccess method now this)) = Paid \<and>
   status (snd (paySuccess method now this)) = Confirmed \<and>
   payMethod (snd (paySuccess method now this)) = Some method \<and>
   payTime (snd (paySuccess method now this)) = Some now \<and>
   snd (paySuccess method now this)
     = this\<lparr>payStatus := Paid, payMethod := Some method, payTime := Some now,
             status := Confirmed\<rparr>"
  by (simp add: paySuccess_def)

lemma cancelled_sample:
  "status order_cancelled = Cancelled" "payStatus order_cancelled = Unpaid"
  by (simp_all add: order_cancelled_def cancel_def order_of_def)

text \<open>
  Claim C4 (where the code departs from it). A transition outside the allowed set must
  fail and leave the order unchanged. The bodies of the seven guarded operations do so
  (lemma \<open>guarded_op_outside_allowed\<close>); the body of \<open>paySuccess\<close> has no guard. Applied to
  an order that \<open>cancel\<close> has cancelled before payment it returns without an error and
  moves the order from \<open>Cancelled\<close> to \<open>Confirmed\<close>, where \<open>confirm\<close> refuses.
\<close>

theorem paySuccess_leaves_allowed_set:
  "status order_cancelled = Cancelled \<and> payStatus order_cancelled = Unpaid \<and>
   \<not> allowed (status order_cancelled) (target (OpPaySuccess Wechat)) \<and>
   apply_op 1000 (OpPaySuccess Wechat) order_cancelled
     = (None, order_cancelled\<lparr>payStatus := Paid, payMethod := Some Wechat,
                               payTime := Some 1000, status := Confirmed\<rparr>) \<and>
   status (snd (apply_op 1000 (OpPaySuccess Wechat) order_cancelled)) = Confirmed \<and>
   snd (apply_op 1000 (OpPaySuccess Wechat) order_cancelled) \<noteq> order_cancelled \<and>
   apply_op 1000 OpConfirm order_cancelled = (Some OrderStatusIncorrect, order_cancelled)"
proof -
  have "status (order_cancelled\<lparr>payStatus := Paid, payMethod := Some Wechat,
                               payTime := Some 1000, status := Confirmed\<rparr>)
          \<noteq> status order_cancelled"
    by (simp add: cancelled_sample)
  then have "order_cancelled\<lparr>payStatus := Paid, payMethod := Some Wechat,
                            payTime := Some 1000, status := Confirmed\<rparr> \<noteq> order_cancelled"
    by metis
  then show ?thesis
    by (simp add: cancelled_sample paySuccess_def confirm_def)
qed

section \<open>Order numbers\<close>




















section \<open>Daily sign-in\<close>

lemma local_day_previous:
  "utcOffset e (now - 86400000) = utcOffset e now \<Longrightarrow>
     local_day e (now - 86400000) = local_day e now - 1"
proof -
  assume a: "utcOffset e (now - 86400000) = utcOffset e now"
  have "(now + utcOffset e now - 86400000) div 86400000
          = (now + utcOffset e now) div 86400000 - 1"
    using div_add_self2 [of 86400000 "now + utcOffset e now - 86400000"] by simp
  then show ?thesis by (simp add: local_day_def a algebra_simps)
qed

lemma signIn_same_day:
  "map_option (local_day e) (lastSignInAt u) = Some (local_day e now) \<Longrightarrow>
     signIn e now u d = (Inl AlreadySignedInToday, d, u)"
  by (simp add: signIn_def Let_def)

lemma signIn_other_day:
  assumes "map_option (local_day e) (lastSignInAt u) \<noteq> Some (local_day e now)"
  shows "signIn e now u d =
     (let streak = (if map_option (local_day e) (lastSignInAt u)
                         = Some (local_day e (now - 86400000))
                    then signInCount u + 1 else 1)
      in (Inr (signInPoints e, streak),
          d\<lparr>users := save_user (signed_in e now streak u)
                       (save_user (signed_in e now streak u) (users d)),
            pointRecords := pointRecords d @ [sign_in_entry e u]\<rparr>,
          signed_in e now streak u))"
  using assms unfolding signIn_def Let_def
  by (simp add: Let_def addPoints_def signed_in_def sign_in_entry_def
        del: map_option_eq_Some)

lemma signIn_constant_offset:
  assumes "utcOffset e (now - 86400000) = utcOffset e now"
    and "map_option (local_day e) (lastSignInAt u) = Some (local_day e now - 1)"
  shows "fst (signIn e now u d) = Inr (signInPoints e, signInCount u + 1)"
proof -
  from assms(2) have "map_option (local_day e) (lastSignInAt u) \<noteq> Some (local_day e now)"
    by auto
  from signIn_other_day [OF this, of d] assms show ?thesis
    by (simp add: local_day_previous Let_def del: map_option_eq_Some)
qed

text \<open>
  Claim C8 (where the code departs from it). The streak must grow when the last sign-in
  was on the prior calendar day. The body compares the last sign-in's date with the date
  of the instant 24 hours before now, which is the prior day when the offset from UTC is
  the same at both instants (lemma \<open>signIn_constant_offset\<close>) and need not be otherwise.
  In New York, on Monday 9 March 2026 at 00:30 (day 20521), a user whose last sign-in was
  on Sunday the 8th (day 20520) with a streak of 3 signs in: 24 hours earlier it was
  Saturday 23:30 (day 20519), and the streak is reset to 1.
\<close>

theorem signIn_resets_streak_across_dst:
  "local_day env_ny 1773030600000 = 20521 \<and>
   map_option (local_day env_ny) (lastSignInAt carol) = Some 20520 \<and>
   local_day env_ny (1773030600000 - 24 * 60 * 60 * 1000) = 20519 \<and>
   signInCount carol = 3 \<and>
   fst (signIn env_ny 1773030600000 carol db_carol) = Inr (5, 1) \<and>
   signInCount (snd (snd (signIn env_ny 1773030600000 carol db_carol))) = 1"
proof -
  have days: "local_day env_ny 1773030600000 = 20521"
    "map_option (local_day env_ny) (lastSignInAt carol) = Some 20520"
    "local_day env_ny 1772944200000 = 20519"
    by (simp_all add: local_day_def env_ny_def env1_def carol_def)
  have ne: "map_option (local_day env_ny) (lastSignInAt carol)
              \<noteq> Some (local_day env_ny 1773030600000)"
    by (simp add: days del: map_option_eq_Some)
  have p: "signInPoints env_ny = 5" by (simp add: signInPoints_def env_ny_def env1_def)
  from signIn_other_day [OF ne, of db_carol]
  have "fst (signIn env_ny 1773030600000 carol db_carol) = Inr (5, 1)"
    and "signInCount (snd (snd (signIn env_ny 1773030600000 carol db_carol))) = 1"
    by (simp_all add: days p Let_def signed_in_def del: map_option_eq_Some)
  then show ?thesis using days by (simp add: carol_def del: map_option_eq_Some)
qed

section \<open>Gateway signatures\<close>

lemma fold_sign_step:
  "fold (sign_step params) ks acc =
     acc @ concat (map (\<lambda>(k, v). k @ ''='' @ to_string v @ ''&'')
       (filter (\<lambda>(k, v). v \<noteq> Str [] \<and> v \<noteq> Null \<and> v \<noteq> Undefined \<and> k \<noteq> ''sign'')
         (map (\<lambda>k. (k, obj_get params k)) ks)))"
  by (induction ks arbitrary: acc) (simp_all add: sign_step_def)

text \<open>
  Claim C5. The signature the service computes is the upper-cased digest of the canonical
  string of the specification (sorted keys, \<^verbatim>\<open>key=value&\<close> for each non-empty, non-null
  field other than \<^verbatim>\<open>sign\<close>, the secret appended as \<^verbatim>\<open>key=<secret>\<close>), and verification
  accepts exactly the messages whose signature is that recomputation under the configured
  secret. The digest is MD5 in the source; the statement holds for any digest function.
\<close>

theorem generateSign_canonical:
  "generateSign digest params secret = toUpperCase (digest (canonical_string params secret)) \<and>
   (verifySign e params sign \<longleftrightarrow>
      sign = Str (toUpperCase (md5hex e (canonical_string params (payKey e)))))"
  by (auto simp: generateSign_def verifySign_def canonical_string_def signed_fields_def
        fold_sign_step Let_def)

lemma sample_canonical:
  "canonical_string sample_params ''secret'' = ''appid=wx1&total_fee=9300&key=secret''"
  by (simp add: canonical_string_def signed_fields_def obj_keys_def obj_get_def sample_params_def
      string_of_int_def string_of_nat_numeral digit_char_def)

theorem generateSign_canonical_witness:
  "generateSign (md5hex env1) sample_params ''secret'' = ''APPID=WX1&TOTAL_FEE=9300&KEY=SECRET'' \<and>
   verifySign env1 sample_params (Str ''APPID=WX1&TOTAL_FEE=9300&KEY=SECRET'') \<and>
   \<not> verifySign env1 sample_params (obj_get sample_params ''sign'')"
proof -
  have u: "toUpperCase ''appid=wx1&total_fee=9300&key=secret''
             = ''APPID=WX1&TOTAL_FEE=9300&KEY=SECRET''"
    by (simp add: toUpperCase_def upper_char_def)
  have k: "payKey env1 = ''secret''" "md5hex env1 = (\<lambda>s. s)" by (simp_all add: env1_def)
  have s: "obj_get sample_params ''sign'' = Str ''XYZ''"
    by (simp add: obj_get_def sample_params_def)
  from generateSign_canonical [of "md5hex env1" sample_params "''secret''" env1
      "Str ''APPID=WX1&TOTAL_FEE=9300&KEY=SECRET''"]
    generateSign_canonical [of "md5hex env1" sample_params "''secret''" env1 "Str ''XYZ''"]
  show ?thesis by (simp add: sample_canonical u k s)
qed

section \<open>Payment callbacks\<close>



section \<open>Settlement\<close>

lemma settle_as_written:
  "\<not> methodsInstalled e \<Longrightarrow> settle e now uid ord d = (Inl TypeError, d, ord)"
  by (simp add: settle_def)

lemma notify_as_written:
  assumes "\<not> methodsInstalled e"
  shows "orders (fst (notify e now xmlData d)) = orders d \<and>
         users (fst (notify e now xmlData d)) = users d \<and>
         pointRecords (fst (notify e now xmlData d)) = pointRecords d"
  using assms
  by (auto simp: notify_def handlePaymentNotify_def settle_as_written Let_def
        split: sum.splits option.splits prod.splits)

lemma payment_status_as_written:
  assumes "\<not> methodsInstalled e"
  shows "fst (payment_status e gw now nonce auth no d) = d"
  using assms
  by (auto simp: payment_status_def settle_as_written Let_def
        split: sum.splits option.splits)




section \<open>Refund requests\<close>

text \<open>
  Claim C6. A refund request for more than the order's amount paid is rejected before any
  request is sent to the gateway, and the stored state is unchanged; and whenever a request
  is sent to the gateway, the order is \<open>Completed\<close> and the amount is at most the amount
  paid.
\<close>

theorem refund_amount_checked_before_gateway:
  "(Order_findByPk k (orders d) = Some ord \<and> body_orderId b = Some k \<and>
    body_refundAmount b = Some amount \<and> amount > payAmount ord \<longrightarrow>
      fst (refund_route e gw now date rnd nonce auth b d) = d \<and>
      snd (snd (refund_route e gw now date rnd nonce auth b d)) = [] \<and>
      fst (snd (refund_route e gw now date rnd nonce auth b d))
        \<in> {Refund401, Refund400Params, Refund403, Refund400Status, Refund400Amount}) \<and>
   (snd (snd (refund_route e gw now date rnd nonce auth b d)) \<noteq> [] \<longrightarrow>
      (\<exists>k ord amount. body_orderId b = Some k \<and> body_refundAmount b = Some amount \<and>
         Order_findByPk k (orders d) = Some ord \<and> status ord = Completed \<and>
         amount \<le> payAmount ord))"
proof (intro conjI impI)
  assume a: "Order_findByPk k (orders d) = Some ord \<and> body_orderId b = Some k \<and>
    body_refundAmount b = Some amount \<and> amount > payAmount ord"
  then have v: "validate_refund_body b = None \<or>
      (\<exists>reason. validate_refund_body b = Some (k, amount, reason))"
    by (auto simp: validate_refund_body_def split: option.splits)
  show "fst (refund_route e gw now date rnd nonce auth b d) = d"
    using a v by (auto simp: refund_route_def split: option.splits)
  show "snd (snd (refund_route e gw now date rnd nonce auth b d)) = []"
    using a v by (auto simp: refund_route_def split: option.splits)
  show "fst (snd (refund_route e gw now date rnd nonce auth b d))
        \<in> {Refund401, Refund400Params, Refund403, Refund400Status, Refund400Amount}"
    using a v by (auto simp: refund_route_def split: option.splits)
next
  assume "snd (snd (refund_route e gw now date rnd nonce auth b d)) \<noteq> []"
  then show "\<exists>k ord amount. body_orderId b = Some k \<and> body_refundAmount b = Some amount \<and>
         Order_findByPk k (orders d) = Some ord \<and> status ord = Completed \<and>
         amount \<le> payAmount ord"
    by (auto simp: refund_route_def validate_refund_body_def Let_def
          split: option.splits if_splits sum.splits)
qed

lemma order_done_simps:
  "order_id order_done = 1" "payAmount order_done = 100" "status order_done = Completed"
  "userId order_done = 7"
  by (simp_all add: order_done_def order_of_def)

theorem refund_amount_checked_before_gateway_witness:
  "refund_route env1 gw_ok 5000 nov3 (1 / 8) ''nonce'' (Some 7) (refund_of 120) db_done
     = (db_done, Refund400Amount, []) \<and>
   status order_done = Completed \<and> 100 \<le> payAmount order_done \<and>
   length (snd (snd (refund_route env1 gw_ok 5000 nov3 (1 / 8) ''nonce'' (Some 7)
                       (refund_of 100) db_done))) = 1"
proof -
  have f: "Order_findByPk 1 (orders db_done) = Some order_done"
    by (simp add: db_done_def Order_findByPk_def order_done_simps)
  have v: "validate_refund_body (refund_of a) = (if a > 0 then Some (1, a, ''cold'') else None)" for a
    by (simp add: validate_refund_body_def refund_of_def)
  have r: "fst (snd (refund_route env1 gw_ok 5000 nov3 (1 / 8) ''nonce'' (Some 7)
                       (refund_of 120) db_done)) = Refund400Amount"
    by (simp add: refund_route_def f v order_done_simps)
  have sent: "length (snd (snd (refund_route env1 gw_ok 5000 nov3 (1 / 8) ''nonce'' (Some 7)
                       (refund_of 100) db_done))) = 1"
    by (simp add: refund_route_def f v order_done_simps Let_def gw_ok_def obj_get_def)
  have h: "Order_findByPk 1 (orders db_done) = Some order_done \<and>
      body_orderId (refund_of 120) = Some 1 \<and> body_refundAmount (refund_of 120) = Some 120 \<and>
      120 > payAmount order_done"
    by (simp add: f refund_of_def order_done_simps)
  from sent have ne: "snd (snd (refund_route env1 gw_ok 5000 nov3 (1 / 8) ''nonce'' (Some 7)
                       (refund_of 100) db_done)) \<noteq> []"
    by auto
  from refund_amount_checked_before_gateway
      [of 1 db_done order_done "refund_of 120" 120 env1 gw_ok 5000 nov3 "1 / 8" "''nonce''" "Some 7"] h
  have "fst (refund_route env1 gw_ok 5000 nov3 (1 / 8) ''nonce'' (Some 7) (refund_of 120) db_done)
          = db_done \<and>
        snd (snd (refund_route env1 gw_ok 5000 nov3 (1 / 8) ''nonce'' (Some 7) (refund_of 120)
          db_done)) = []"
    by blast
  moreover
  from refund_amount_checked_before_gateway
      [of 1 db_done order_done "refund_of 100" 100 env1 gw_ok 5000 nov3 "1 / 8" "''nonce''" "Some 7"] ne
  have "\<exists>k ord amount. body_orderId (refund_of 100) = Some k \<and>
         body_refundAmount (refund_of 100) = Some amount \<and>
         Order_findByPk k (orders db_done) = Some ord \<and> status ord = Completed \<and>
         amount \<le> payAmount ord"
    by blast
  then have "status order_done = Completed \<and> 100 \<le> payAmount order_done"
    by (auto simp: refund_of_def f)
  ultimately show ?thesis using r sent
    by (cases "refund_route env1 gw_ok 5000 nov3 (1 / 8) ''nonce'' (Some 7) (refund_of 120) db_done")
       auto
qed

end
